theory Spec2Isabelle
  imports Main "HOL-Library.Word"
begin

unbundle bit_operations_syntax

section \<open>The event-tap shim \<^verbatim>\<open>macos_shim.c\<close>\<close>

text \<open>
  The shim forwards to the ApplicationServices and CoreFoundation frameworks. Those
  are not part of the program, so the embedding takes the framework as a parameter:
  every constant of its headers the shim names, and every function of it the shim
  calls, is a field of the record \<open>framework\<close>. A framework function takes its
  arguments and the framework's own state \<open>'w\<close> (opaque to the shim) and returns its
  result with the next state. Theorems hold for every framework.
\<close>

subsection \<open>Data\<close>

text \<open>
  \<^verbatim>\<open>void*\<close>, \<^verbatim>\<open>CFMachPortRef\<close>, \<^verbatim>\<open>CGEventRef\<close>, \<^verbatim>\<open>CGPoint*\<close> and the callback are
  addresses; \<^verbatim>\<open>NULL\<close> is address 0, and \<^verbatim>\<open>if (p)\<close> tests \<open>p \<noteq> NULL\<close>.
\<close>

type_synonym ptr = "64 word"

definition NULL :: ptr where
  "NULL = 0"

text \<open>A \<^verbatim>\<open>double\<close> is only ever passed on by the shim: it is kept as its 64-bit pattern.\<close>

datatype c_double = Double "64 word"

datatype CGPoint = CGPoint (pt_x: c_double) (pt_y: c_double)

text \<open>One record of the log per call into the framework, with the arguments passed.\<close>

datatype os_call =
    Call_CGEventTapCreate "32 word" "32 word" "32 word" "64 word" ptr ptr
  | Call_CGEventTapEnable ptr bool
  | Call_CFMachPortCreateRunLoopSource ptr ptr "64 word"
  | Call_CFRunLoopGetCurrent
  | Call_CFRunLoopAddSource ptr ptr ptr
  | Call_CFRelease ptr
  | Call_CFRunLoopRunInMode ptr c_double bool
  | Call_CGEventGetIntegerValueField ptr "32 word"
  | Call_CGEventCreate ptr
  | Call_CGEventGetLocation ptr

text \<open>A call of \<^verbatim>\<open>printf\<close>: the format string and the variadic arguments.\<close>

datatype printf_arg = Int_arg "32 word" | Double_arg c_double

datatype printf_call = Printf string "printf_arg list"

record 'w framework =
  kCGEventKeyDown :: "32 word"
  kCGEventKeyUp :: "32 word"
  kCGEventLeftMouseDown :: "32 word"
  kCGEventLeftMouseUp :: "32 word"
  kCGEventRightMouseDown :: "32 word"
  kCGEventRightMouseUp :: "32 word"
  kCGEventMouseMoved :: "32 word"
  kCGEventScrollWheel :: "32 word"
  kCGSessionEventTap :: "32 word"
  kCGHeadInsertEventTap :: "32 word"
  kCGEventTapOptionDefault :: "32 word"
  kCGKeyboardEventKeycode :: "32 word"
  kCFAllocatorDefault :: ptr
  kCFRunLoopDefaultMode :: ptr
  os_CGEventTapCreate ::
    "32 word \<Rightarrow> 32 word \<Rightarrow> 32 word \<Rightarrow> 64 word \<Rightarrow> ptr \<Rightarrow> ptr \<Rightarrow> 'w \<Rightarrow> ptr \<times> 'w"
  os_CGEventTapEnable :: "ptr \<Rightarrow> bool \<Rightarrow> 'w \<Rightarrow> 'w"
  os_CFMachPortCreateRunLoopSource :: "ptr \<Rightarrow> ptr \<Rightarrow> 64 word \<Rightarrow> 'w \<Rightarrow> ptr \<times> 'w"
  os_CFRunLoopGetCurrent :: "'w \<Rightarrow> ptr \<times> 'w"
  os_CFRunLoopAddSource :: "ptr \<Rightarrow> ptr \<Rightarrow> ptr \<Rightarrow> 'w \<Rightarrow> 'w"
  os_CFRelease :: "ptr \<Rightarrow> 'w \<Rightarrow> 'w"
  os_CFRunLoopRunInMode :: "ptr \<Rightarrow> c_double \<Rightarrow> bool \<Rightarrow> 'w \<Rightarrow> 32 word \<times> 'w"
  os_CGEventGetIntegerValueField :: "ptr \<Rightarrow> 32 word \<Rightarrow> 'w \<Rightarrow> 64 word \<times> 'w"
  os_CGEventCreate :: "ptr \<Rightarrow> 'w \<Rightarrow> ptr \<times> 'w"
  os_CGEventGetLocation :: "ptr \<Rightarrow> 'w \<Rightarrow> CGPoint \<times> 'w"

text \<open>
  What a call of the shim can observe or change: the framework's state, the log of
  the calls made into the framework (oldest first), the caller's \<^verbatim>\<open>CGPoint\<close> objects
  by address, and what was printed (oldest first).
\<close>

record 'w state =
  world :: 'w
  calls :: "os_call list"
  mem :: "ptr \<Rightarrow> CGPoint"
  out :: "printf_call list"

subsection \<open>Calling the framework\<close>

text \<open>Each call is logged with its arguments, then answered by the framework.\<close>

definition CGEventTapCreate ::
  "'w framework \<Rightarrow> 32 word \<Rightarrow> 32 word \<Rightarrow> 32 word \<Rightarrow> 64 word \<Rightarrow> ptr \<Rightarrow> ptr \<Rightarrow>
   'w state \<Rightarrow> ptr \<times> 'w state" where
  "CGEventTapCreate fw tap place options eventsOfInterest callback userInfo s =
     (let (r, w) = os_CGEventTapCreate fw tap place options eventsOfInterest callback userInfo (world s)
      in (r, s\<lparr>world := w,
               calls := calls s @ [Call_CGEventTapCreate tap place options eventsOfInterest callback userInfo]\<rparr>))"

definition CGEventTapEnable :: "'w framework \<Rightarrow> ptr \<Rightarrow> bool \<Rightarrow> 'w state \<Rightarrow> 'w state" where
  "CGEventTapEnable fw tap enable s =
     s\<lparr>world := os_CGEventTapEnable fw tap enable (world s),
       calls := calls s @ [Call_CGEventTapEnable tap enable]\<rparr>"

definition CFMachPortCreateRunLoopSource ::
  "'w framework \<Rightarrow> ptr \<Rightarrow> ptr \<Rightarrow> 64 word \<Rightarrow> 'w state \<Rightarrow> ptr \<times> 'w state" where
  "CFMachPortCreateRunLoopSource fw allocator port order s =
     (let (r, w) = os_CFMachPortCreateRunLoopSource fw allocator port order (world s)
      in (r, s\<lparr>world := w,
               calls := calls s @ [Call_CFMachPortCreateRunLoopSource allocator port order]\<rparr>))"

definition CFRunLoopGetCurrent :: "'w framework \<Rightarrow> 'w state \<Rightarrow> ptr \<times> 'w state" where
  "CFRunLoopGetCurrent fw s =
     (let (r, w) = os_CFRunLoopGetCurrent fw (world s)
      in (r, s\<lparr>world := w, calls := calls s @ [Call_CFRunLoopGetCurrent]\<rparr>))"

definition CFRunLoopAddSource ::
  "'w framework \<Rightarrow> ptr \<Rightarrow> ptr \<Rightarrow> ptr \<Rightarrow> 'w state \<Rightarrow> 'w state" where
  "CFRunLoopAddSource fw rl source mode s =
     s\<lparr>world := os_CFRunLoopAddSource fw rl source mode (world s),
       calls := calls s @ [Call_CFRunLoopAddSource rl source mode]\<rparr>"

definition CFRelease :: "'w framework \<Rightarrow> ptr \<Rightarrow> 'w state \<Rightarrow> 'w state" where
  "CFRelease fw cf s =
     s\<lparr>world := os_CFRelease fw cf (world s), calls := calls s @ [Call_CFRelease cf]\<rparr>"

definition CFRunLoopRunInMode ::
  "'w framework \<Rightarrow> ptr \<Rightarrow> c_double \<Rightarrow> bool \<Rightarrow> 'w state \<Rightarrow> 32 word \<times> 'w state" where
  "CFRunLoopRunInMode fw mode seconds returnAfterSourceHandled s =
     (let (r, w) = os_CFRunLoopRunInMode fw mode seconds returnAfterSourceHandled (world s)
      in (r, s\<lparr>world := w,
               calls := calls s @ [Call_CFRunLoopRunInMode mode seconds returnAfterSourceHandled]\<rparr>))"

definition CGEventGetIntegerValueField ::
  "'w framework \<Rightarrow> ptr \<Rightarrow> 32 word \<Rightarrow> 'w state \<Rightarrow> 64 word \<times> 'w state" where
  "CGEventGetIntegerValueField fw event field s =
     (let (r, w) = os_CGEventGetIntegerValueField fw event field (world s)
      in (r, s\<lparr>world := w, calls := calls s @ [Call_CGEventGetIntegerValueField event field]\<rparr>))"

definition CGEventCreate :: "'w framework \<Rightarrow> ptr \<Rightarrow> 'w state \<Rightarrow> ptr \<times> 'w state" where
  "CGEventCreate fw source s =
     (let (r, w) = os_CGEventCreate fw source (world s)
      in (r, s\<lparr>world := w, calls := calls s @ [Call_CGEventCreate source]\<rparr>))"

definition CGEventGetLocation :: "'w framework \<Rightarrow> ptr \<Rightarrow> 'w state \<Rightarrow> CGPoint \<times> 'w state" where
  "CGEventGetLocation fw event s =
     (let (r, w) = os_CGEventGetLocation fw event (world s)
      in (r, s\<lparr>world := w, calls := calls s @ [Call_CGEventGetLocation event]\<rparr>))"

definition printf :: "string \<Rightarrow> printf_arg list \<Rightarrow> 'w state \<Rightarrow> 'w state" where
  "printf fmt args s = s\<lparr>out := out s @ [Printf fmt args]\<rparr>"

subsection \<open>The shim\<close>

text \<open>
  \<^verbatim>\<open>(1 << kCGEventKeyDown) | ... | (1 << kCGEventScrollWheel)\<close>: the shifts and the
  ORs are on \<^verbatim>\<open>int\<close> (32 bits, signed), and the result is converted to the 64-bit
  unsigned \<^verbatim>\<open>CGEventMask\<close>, which extends the sign. C defines the shift only for
  amounts below 31; \<open>push_bit\<close> gives 0 from 32 on.
\<close>

definition eventMask :: "'w framework \<Rightarrow> 64 word" where
  "eventMask fw =
     scast (push_bit (unat (kCGEventKeyDown fw)) (1 :: 32 word) OR
            push_bit (unat (kCGEventKeyUp fw)) 1 OR
            push_bit (unat (kCGEventLeftMouseDown fw)) 1 OR
            push_bit (unat (kCGEventLeftMouseUp fw)) 1 OR
            push_bit (unat (kCGEventRightMouseDown fw)) 1 OR
            push_bit (unat (kCGEventRightMouseUp fw)) 1 OR
            push_bit (unat (kCGEventMouseMoved fw)) 1 OR
            push_bit (unat (kCGEventScrollWheel fw)) 1)"

definition InitializeEventTap ::
  "'w framework \<Rightarrow> ptr \<Rightarrow> ptr \<Rightarrow> 'w state \<Rightarrow> ptr \<times> 'w state" where
  "InitializeEventTap fw callback userData s =
     (let (eventTap, s1) =
            CGEventTapCreate fw (kCGSessionEventTap fw) (kCGHeadInsertEventTap fw)
              (kCGEventTapOptionDefault fw) (eventMask fw) callback userData s
      in if eventTap = NULL
         then (NULL, printf (''Failed to create event tap.'' @ [CHR 0x0A]) [] s1)
         else (eventTap, s1))"

definition EnableEventTap :: "'w framework \<Rightarrow> ptr \<Rightarrow> bool \<Rightarrow> 'w state \<Rightarrow> 'w state" where
  "EnableEventTap fw tap enable s =
     (if tap \<noteq> NULL then CGEventTapEnable fw tap enable s else s)"

definition AddEventTapToCurrentRunLoop :: "'w framework \<Rightarrow> ptr \<Rightarrow> 'w state \<Rightarrow> 'w state" where
  "AddEventTapToCurrentRunLoop fw tap s =
     (if tap \<noteq> NULL then
        (let (runLoopSource, s1) =
               CFMachPortCreateRunLoopSource fw (kCFAllocatorDefault fw) tap 0 s
         in if runLoopSource \<noteq> NULL then
              (let (rl, s2) = CFRunLoopGetCurrent fw s1;
                   s3 = CFRunLoopAddSource fw rl runLoopSource (kCFRunLoopDefaultMode fw) s2
               in CFRelease fw runLoopSource s3)
            else s1)
      else s)"

definition CleanupEventTap :: "'w framework \<Rightarrow> ptr \<Rightarrow> 'w state \<Rightarrow> 'w state" where
  "CleanupEventTap fw tap s = (if tap \<noteq> NULL then CFRelease fw tap s else s)"

definition RunCurrentRunLoopWithTimeout ::
  "'w framework \<Rightarrow> c_double \<Rightarrow> 'w state \<Rightarrow> 32 word \<times> 'w state" where
  "RunCurrentRunLoopWithTimeout fw seconds s =
     CFRunLoopRunInMode fw (kCFRunLoopDefaultMode fw) seconds True s"

text \<open>The cast \<^verbatim>\<open>(uint16_t)\<close> of the 64-bit field keeps its low 16 bits.\<close>

definition GetKeyCodeFromEvent :: "'w framework \<Rightarrow> ptr \<Rightarrow> 'w state \<Rightarrow> 16 word \<times> 'w state" where
  "GetKeyCodeFromEvent fw event s =
     (if event \<noteq> NULL then
        (let (v, s1) = CGEventGetIntegerValueField fw event (kCGKeyboardEventKeycode fw) s
         in (ucast v, s1))
      else (0, s))"

text \<open>
  The result is a C \<^verbatim>\<open>int\<close>; \<open>- 1\<close> is the word of all ones. The store through
  \<^verbatim>\<open>point\<close> updates the caller's memory at that address.
\<close>

definition GetCurrentMousePos :: "'w framework \<Rightarrow> ptr \<Rightarrow> 'w state \<Rightarrow> 32 word \<times> 'w state" where
  "GetCurrentMousePos fw point s =
     (if point = NULL then (- 1, s)
      else
        (let (event, s1) = CGEventCreate fw NULL s
         in if event \<noteq> NULL then
              (let (location, s2) = CGEventGetLocation fw event s1;
                   s3 = s2\<lparr>mem := (mem s2)(point := location)\<rparr>;
                   s4 = CFRelease fw event s3
               in (0, s4))
            else (- 1, s1)))"

text \<open>
  \<^verbatim>\<open>(int)type\<close> keeps the 32 bits of the event type; \<^verbatim>\<open>(CGKeyCode)\<close> keeps the low 16
  bits of the field, and \<^verbatim>\<open>(int)keyCode\<close> extends them with zeros. \<open>event\<close> is passed
  to the framework unchecked.
\<close>

definition PrintEventInfo :: "'w framework \<Rightarrow> 32 word \<Rightarrow> ptr \<Rightarrow> 'w state \<Rightarrow> 'w state" where
  "PrintEventInfo fw type event s =
     (let s1 = printf (''Event type: %d'' @ [CHR 0x0A]) [Int_arg type] s
      in if type = kCGEventKeyDown fw \<or> type = kCGEventKeyUp fw then
           (let (v, s2) = CGEventGetIntegerValueField fw event (kCGKeyboardEventKeycode fw) s1;
                keyCode = (ucast v :: 16 word)
            in printf (''Key code: %d'' @ [CHR 0x0A]) [Int_arg (ucast keyCode)] s2)
         else if type = kCGEventMouseMoved fw \<or>
                 type = kCGEventLeftMouseDown fw \<or> type = kCGEventLeftMouseUp fw \<or>
                 type = kCGEventRightMouseDown fw \<or> type = kCGEventRightMouseUp fw then
           (let (location, s2) = CGEventGetLocation fw event s1
            in printf (''Mouse location: (%f, %f)'' @ [CHR 0x0A])
                 [Double_arg (pt_x location), Double_arg (pt_y location)] s2)
         else s1)"

subsection \<open>A simulated framework\<close>

text \<open>
  A small framework to run the shim on. Its state is the number of objects it can
  still hand out and the list of the taps that are enabled. Creating a tap, a
  run-loop source or an event takes one object, and fails with \<^verbatim>\<open>NULL\<close> when none is
  left; releasing gives one back. The integer field of an event is derived from the
  event's address, so that events with different fields exist. The constants have
  the values of the macOS headers.
\<close>

type_synonym sim_world = "nat \<times> ptr list"

definition sim_framework :: "sim_world framework" where
  "sim_framework = \<lparr>
     kCGEventKeyDown = 10, kCGEventKeyUp = 11,
     kCGEventLeftMouseDown = 1, kCGEventLeftMouseUp = 2,
     kCGEventRightMouseDown = 3, kCGEventRightMouseUp = 4,
     kCGEventMouseMoved = 5, kCGEventScrollWheel = 22,
     kCGSessionEventTap = 1, kCGHeadInsertEventTap = 0, kCGEventTapOptionDefault = 0,
     kCGKeyboardEventKeycode = 9,
     kCFAllocatorDefault = 0, kCFRunLoopDefaultMode = 0x3000,
     os_CGEventTapCreate =
       (\<lambda>tap place options mask callback userInfo w.
          if fst w = 0 then (0, w) else (0x1000, (fst w - 1, snd w))),
     os_CGEventTapEnable =
       (\<lambda>tap enable w. (fst w, if enable then tap # snd w else removeAll tap (snd w))),
     os_CFMachPortCreateRunLoopSource =
       (\<lambda>allocator port order w. if fst w = 0 then (0, w) else (0x1100, (fst w - 1, snd w))),
     os_CFRunLoopGetCurrent = (\<lambda>w. (0x2000, w)),
     os_CFRunLoopAddSource = (\<lambda>rl source mode w. w),
     os_CFRelease = (\<lambda>cf w. (fst w + 1, snd w)),
     os_CFRunLoopRunInMode = (\<lambda>mode seconds returnAfterSourceHandled w. (3, w)),
     os_CGEventGetIntegerValueField = (\<lambda>event field w. (event - 0x7000, w)),
     os_CGEventCreate =
       (\<lambda>source w. if fst w = 0 then (0, w) else (0x7000, (fst w - 1, snd w))),
     os_CGEventGetLocation =
       (\<lambda>event w. (CGPoint (Double 0x4059000000000000) (Double 0x4049000000000000), w))\<rparr>"

text \<open>
  The state before any call: \<open>n\<close> objects available, no tap enabled, nothing logged,
  nothing printed, all points at the origin.
\<close>

definition sim_state :: "nat \<Rightarrow> sim_world state" where
  "sim_state n =
     \<lparr>world = (n, []), calls = [], mem = (\<lambda>p. CGPoint (Double 0) (Double 0)), out = []\<rparr>"

section \<open>Properties\<close>

subsection \<open>A \<^verbatim>\<open>NULL\<close> tap\<close>

text \<open>
  C1. With a \<^verbatim>\<open>NULL\<close> tap, each of \<open>EnableEventTap\<close>, \<open>AddEventTapToCurrentRunLoop\<close>
  and \<open>CleanupEventTap\<close> returns the state it was given: the log of framework calls,
  the framework's state, the caller's memory and the output are all as before.
\<close>

theorem null_tap_is_noop:
  "EnableEventTap fw NULL enable s = s \<and>
   AddEventTapToCurrentRunLoop fw NULL s = s \<and>
   CleanupEventTap fw NULL s = s"
  by (simp add: EnableEventTap_def AddEventTapToCurrentRunLoop_def CleanupEventTap_def)

theorem null_tap_is_noop_witness:
  "calls (EnableEventTap sim_framework NULL True (sim_state 1)) = [] \<and>
   calls (AddEventTapToCurrentRunLoop sim_framework NULL (sim_state 1)) = [] \<and>
   calls (CleanupEventTap sim_framework NULL (sim_state 1)) = []"
  using null_tap_is_noop [of sim_framework True "sim_state 1"]
  by (simp add: sim_state_def)

subsection \<open>Creating the tap\<close>

text \<open>
  C2. Whatever tap handle the framework's \<open>CGEventTapCreate\<close> answers to the shim's
  request, \<open>InitializeEventTap\<close> returns that handle; so it returns \<^verbatim>\<open>NULL\<close> exactly
  when the framework answered a null tap.
\<close>

theorem InitializeEventTap_result:
  assumes "os_CGEventTapCreate fw (kCGSessionEventTap fw) (kCGHeadInsertEventTap fw)
             (kCGEventTapOptionDefault fw) (eventMask fw) callback userData (world s) = (tap, w)"
  shows "fst (InitializeEventTap fw callback userData s) = tap \<and>
         (fst (InitializeEventTap fw callback userData s) = NULL \<longleftrightarrow> tap = NULL)"
  using assms by (simp add: InitializeEventTap_def CGEventTapCreate_def)

theorem InitializeEventTap_result_witness:
  "fst (InitializeEventTap sim_framework 0x500 0x600 (sim_state 1)) = 0x1000 \<and>
   fst (InitializeEventTap sim_framework 0x500 0x600 (sim_state 0)) = NULL"
  using InitializeEventTap_result [of sim_framework "0x500" "0x600" "sim_state 1" "0x1000" "(0, [])"]
    InitializeEventTap_result [of sim_framework "0x500" "0x600" "sim_state 0" 0 "(0, [])"]
  by (simp add: sim_framework_def sim_state_def NULL_def)

text \<open>
  The mask, bit by bit. A shift amount below 31 leaves the sign bit of the \<^verbatim>\<open>int\<close>
  clear, so the conversion to 64 bits adds no bit.
\<close>

lemma bit_one_shifted:
  "k < 31 \<Longrightarrow> bit (2 ^ unat (k :: 32 word) :: 32 word) m \<longleftrightarrow> m = unat k"
  by (auto simp: bit_simps word_less_nat_alt)

lemma unat_lt_31: "(k :: 32 word) < 31 \<Longrightarrow> unat k < 31"
  by (simp add: word_less_nat_alt)

lemma eventMask_bits:
  assumes "kCGEventKeyDown fw < 31" "kCGEventKeyUp fw < 31"
    "kCGEventLeftMouseDown fw < 31" "kCGEventLeftMouseUp fw < 31"
    "kCGEventRightMouseDown fw < 31" "kCGEventRightMouseUp fw < 31"
    "kCGEventMouseMoved fw < 31" "kCGEventScrollWheel fw < 31"
  shows "bit (eventMask fw) n \<longleftrightarrow>
     n \<in> {unat (kCGEventKeyDown fw), unat (kCGEventKeyUp fw),
          unat (kCGEventLeftMouseDown fw), unat (kCGEventLeftMouseUp fw),
          unat (kCGEventRightMouseDown fw), unat (kCGEventRightMouseUp fw),
          unat (kCGEventMouseMoved fw), unat (kCGEventScrollWheel fw)}"
proof (cases "n < 31")
  case True
  then have "min 31 n = n" by simp
  with True show ?thesis
    using assms by (simp add: eventMask_def bit_signed_iff bit_or_iff bit_one_shifted) 
next
  case False
  then have m: "min 31 n = 31" by simp
  have "n \<noteq> unat k" if "k < 31" for k :: "32 word"
    using that False unat_lt_31 [OF that] by auto
  with m show ?thesis
    using assms by (auto simp add: eventMask_def bit_signed_iff bit_or_iff bit_one_shifted dest: unat_lt_31)
qed

lemma calls_InitializeEventTap:
  "calls (snd (InitializeEventTap fw callback userData s)) =
     calls s @ [Call_CGEventTapCreate (kCGSessionEventTap fw) (kCGHeadInsertEventTap fw)
                  (kCGEventTapOptionDefault fw) (eventMask fw) callback userData]"
  by (simp add: InitializeEventTap_def CGEventTapCreate_def printf_def split_beta)

lemma answer_InitializeEventTap:
  "fst (InitializeEventTap fw callback userData s) =
     fst (os_CGEventTapCreate fw (kCGSessionEventTap fw) (kCGHeadInsertEventTap fw)
            (kCGEventTapOptionDefault fw) (eventMask fw) callback userData (world s)) \<and>
   world (snd (InitializeEventTap fw callback userData s)) =
     snd (os_CGEventTapCreate fw (kCGSessionEventTap fw) (kCGHeadInsertEventTap fw)
            (kCGEventTapOptionDefault fw) (eventMask fw) callback userData (world s)) \<and>
   mem (snd (InitializeEventTap fw callback userData s)) = mem s"
  by (simp add: InitializeEventTap_def CGEventTapCreate_def printf_def split_beta)

text \<open>
  C3. Every call of \<open>InitializeEventTap\<close> hands one request to the framework:
  \<open>CGEventTapCreate\<close> at the session tap location, with head insertion and the default
  option, with the given callback and user data as they are, and with the mask
  \<open>eventMask\<close>. That is the only call logged; the framework's state afterwards and
  the handle returned are the ones the framework's \<open>CGEventTapCreate\<close> gives for
  exactly these arguments in the state before, and the caller's memory is as before.
  Provided each of the eight event type constants is below 31 (where C defines the
  shift), bit \<open>n\<close> of that mask is set exactly when \<open>n\<close> is one of the eight event
  types: key down, key up, left mouse down, left mouse up, right mouse down, right
  mouse up, mouse moved, scroll wheel.
\<close>

theorem InitializeEventTap_request:
  assumes "kCGEventKeyDown fw < 31" "kCGEventKeyUp fw < 31"
    "kCGEventLeftMouseDown fw < 31" "kCGEventLeftMouseUp fw < 31"
    "kCGEventRightMouseDown fw < 31" "kCGEventRightMouseUp fw < 31"
    "kCGEventMouseMoved fw < 31" "kCGEventScrollWheel fw < 31"
  shows "calls (snd (InitializeEventTap fw callback userData s)) =
           calls s @ [Call_CGEventTapCreate (kCGSessionEventTap fw) (kCGHeadInsertEventTap fw)
                        (kCGEventTapOptionDefault fw) (eventMask fw) callback userData] \<and>
         world (snd (InitializeEventTap fw callback userData s)) =
           snd (os_CGEventTapCreate fw (kCGSessionEventTap fw) (kCGHeadInsertEventTap fw)
                  (kCGEventTapOptionDefault fw) (eventMask fw) callback userData (world s)) \<and>
         fst (InitializeEventTap fw callback userData s) =
           fst (os_CGEventTapCreate fw (kCGSessionEventTap fw) (kCGHeadInsertEventTap fw)
                  (kCGEventTapOptionDefault fw) (eventMask fw) callback userData (world s)) \<and>
         mem (snd (InitializeEventTap fw callback userData s)) = mem s \<and>
         (\<forall>n. bit (eventMask fw) n \<longleftrightarrow>
            n \<in> {unat (kCGEventKeyDown fw), unat (kCGEventKeyUp fw),
                 unat (kCGEventLeftMouseDown fw), unat (kCGEventLeftMouseUp fw),
                 unat (kCGEventRightMouseDown fw), unat (kCGEventRightMouseUp fw),
                 unat (kCGEventMouseMoved fw), unat (kCGEventScrollWheel fw)})"
  using eventMask_bits [OF assms] calls_InitializeEventTap [of fw callback userData s]
    answer_InitializeEventTap [of fw callback userData s]
  by blast

lemma eventMask_sim: "eventMask sim_framework = 0x400C3E"
  by (simp add: eventMask_def sim_framework_def)

theorem InitializeEventTap_request_witness:
  "calls (snd (InitializeEventTap sim_framework 0x500 0x600 (sim_state 1))) =
     [Call_CGEventTapCreate 1 0 0 0x400C3E 0x500 0x600] \<and>
   world (snd (InitializeEventTap sim_framework 0x500 0x600 (sim_state 1))) = (0, []) \<and>
   fst (InitializeEventTap sim_framework 0x500 0x600 (sim_state 1)) = 0x1000 \<and>
   (\<forall>n. bit (0x400C3E :: 64 word) n \<longleftrightarrow> n \<in> {10, 11, 1, 2, 3, 4, 5, 22})"
proof -
  have small: "kCGEventKeyDown sim_framework < 31" "kCGEventKeyUp sim_framework < 31"
    "kCGEventLeftMouseDown sim_framework < 31" "kCGEventLeftMouseUp sim_framework < 31"
    "kCGEventRightMouseDown sim_framework < 31" "kCGEventRightMouseUp sim_framework < 31"
    "kCGEventMouseMoved sim_framework < 31" "kCGEventScrollWheel sim_framework < 31"
    by (simp_all add: sim_framework_def)
  have created: "os_CGEventTapCreate sim_framework (kCGSessionEventTap sim_framework)
      (kCGHeadInsertEventTap sim_framework) (kCGEventTapOptionDefault sim_framework)
      (eventMask sim_framework) 0x500 0x600 (world (sim_state 1)) = (0x1000, (0, []))"
    by (simp add: sim_framework_def sim_state_def)
  have header: "kCGSessionEventTap sim_framework = 1" "kCGHeadInsertEventTap sim_framework = 0"
    "kCGEventTapOptionDefault sim_framework = 0" "calls (sim_state 1) = []"
    "unat (kCGEventKeyDown sim_framework) = 10" "unat (kCGEventKeyUp sim_framework) = 11"
    "unat (kCGEventLeftMouseDown sim_framework) = 1" "unat (kCGEventLeftMouseUp sim_framework) = 2"
    "unat (kCGEventRightMouseDown sim_framework) = 3" "unat (kCGEventRightMouseUp sim_framework) = 4"
    "unat (kCGEventMouseMoved sim_framework) = 5" "unat (kCGEventScrollWheel sim_framework) = 22"
    by (simp_all add: sim_framework_def sim_state_def)
  from InitializeEventTap_request [OF small, of "0x500" "0x600" "sim_state 1"] created header
  show ?thesis by (simp add: eventMask_sim)
qed

subsection \<open>Enabling the tap and running the run loop\<close>

text \<open>
  C6. With a tap that is not \<^verbatim>\<open>NULL\<close>, \<open>EnableEventTap\<close> makes exactly one call into
  the framework, \<open>CGEventTapEnable\<close> on that tap with the flag it was given, and the
  framework's state afterwards is the one that call produces for that flag; the
  caller's memory and the output are as before. What enabling and disabling do to
  the tap is the framework's part.
\<close>

theorem EnableEventTap_forwards:
  assumes "tap \<noteq> NULL"
  shows "calls (EnableEventTap fw tap enable s) = calls s @ [Call_CGEventTapEnable tap enable] \<and>
         world (EnableEventTap fw tap enable s) = os_CGEventTapEnable fw tap enable (world s) \<and>
         mem (EnableEventTap fw tap enable s) = mem s \<and>
         out (EnableEventTap fw tap enable s) = out s"
  using assms by (simp add: EnableEventTap_def CGEventTapEnable_def)

theorem EnableEventTap_forwards_witness:
  "calls (EnableEventTap sim_framework 0x1000 True (sim_state 0)) =
     [Call_CGEventTapEnable 0x1000 True] \<and>
   snd (world (EnableEventTap sim_framework 0x1000 True (sim_state 0))) = [0x1000] \<and>
   calls (EnableEventTap sim_framework 0x1000 False
            (EnableEventTap sim_framework 0x1000 True (sim_state 0))) =
     [Call_CGEventTapEnable 0x1000 True, Call_CGEventTapEnable 0x1000 False] \<and>
   snd (world (EnableEventTap sim_framework 0x1000 False
                 (EnableEventTap sim_framework 0x1000 True (sim_state 0)))) = []"
  using EnableEventTap_forwards [of "0x1000" sim_framework True "sim_state 0"]
    EnableEventTap_forwards [of "0x1000" sim_framework False
      "EnableEventTap sim_framework 0x1000 True (sim_state 0)"]
  by (simp add: sim_framework_def sim_state_def NULL_def)

text \<open>
  C7. For every timeout, \<open>RunCurrentRunLoopWithTimeout\<close> makes exactly one call into
  the framework: \<open>CFRunLoopRunInMode\<close> in the default mode, with that timeout and with
  \<^verbatim>\<open>returnAfterSourceHandled\<close> true. It returns the result code of that call as it is.
\<close>

theorem RunCurrentRunLoopWithTimeout_forwards:
  assumes "os_CFRunLoopRunInMode fw (kCFRunLoopDefaultMode fw) seconds True (world s) = (r, w1)"
  shows "fst (RunCurrentRunLoopWithTimeout fw seconds s) = r \<and>
         calls (snd (RunCurrentRunLoopWithTimeout fw seconds s)) =
           calls s @ [Call_CFRunLoopRunInMode (kCFRunLoopDefaultMode fw) seconds True] \<and>
         world (snd (RunCurrentRunLoopWithTimeout fw seconds s)) = w1"
  using assms by (simp add: RunCurrentRunLoopWithTimeout_def CFRunLoopRunInMode_def)

theorem RunCurrentRunLoopWithTimeout_forwards_witness:
  "fst (RunCurrentRunLoopWithTimeout sim_framework (Double 0x3FB999999999999A) (sim_state 0)) = 3 \<and>
   calls (snd (RunCurrentRunLoopWithTimeout sim_framework (Double 0x3FB999999999999A) (sim_state 0))) =
     [Call_CFRunLoopRunInMode 0x3000 (Double 0x3FB999999999999A) True]"
  using RunCurrentRunLoopWithTimeout_forwards
    [of sim_framework "Double 0x3FB999999999999A" "sim_state 0" 3 "(0, [])"]
  by (simp add: sim_framework_def sim_state_def)

subsection \<open>The key code of an event\<close>

text \<open>
  C5. For an event that is not \<^verbatim>\<open>NULL\<close>, \<open>GetKeyCodeFromEvent\<close> asks the framework once
  for the integer field \<open>kCGKeyboardEventKeycode\<close> of that event and returns the low
  16 bits of the answer: as a number, the answer modulo \<open>2 ^ 16\<close>.
\<close>

theorem GetKeyCodeFromEvent_field:
  assumes "event \<noteq> NULL"
    and "os_CGEventGetIntegerValueField fw event (kCGKeyboardEventKeycode fw) (world s) = (v, w1)"
  shows "fst (GetKeyCodeFromEvent fw event s) = ucast v \<and>
         unat (fst (GetKeyCodeFromEvent fw event s)) = unat v mod 2 ^ 16 \<and>
         calls (snd (GetKeyCodeFromEvent fw event s)) =
           calls s @ [Call_CGEventGetIntegerValueField event (kCGKeyboardEventKeycode fw)]"
  using assms
  by (simp add: GetKeyCodeFromEvent_def CGEventGetIntegerValueField_def
      unsigned_ucast_eq take_bit_eq_mod)

theorem GetKeyCodeFromEvent_field_witness:
  "fst (GetKeyCodeFromEvent sim_framework 0x57031 (sim_state 0)) = 0x31 \<and>
   calls (snd (GetKeyCodeFromEvent sim_framework 0x57031 (sim_state 0))) =
     [Call_CGEventGetIntegerValueField 0x57031 9]"
  using GetKeyCodeFromEvent_field [of "0x57031" sim_framework "sim_state 0" "0x50031" "(0, [])"]
  by (simp add: sim_framework_def sim_state_def NULL_def)

text \<open>
  C8. For a \<^verbatim>\<open>NULL\<close> event \<open>GetKeyCodeFromEvent\<close> returns 0 and leaves the state as it
  was. An event that is not \<^verbatim>\<open>NULL\<close> and whose key code field is 0 gives the same
  result, so the result does not tell the two apart.
\<close>

theorem GetKeyCodeFromEvent_null:
  "GetKeyCodeFromEvent fw NULL s = (0, s) \<and>
   (event \<noteq> NULL \<and>
    fst (os_CGEventGetIntegerValueField fw event (kCGKeyboardEventKeycode fw) (world s)) = 0 \<longrightarrow>
      fst (GetKeyCodeFromEvent fw event s) = fst (GetKeyCodeFromEvent fw NULL s))"
  by (simp add: GetKeyCodeFromEvent_def CGEventGetIntegerValueField_def split_beta)

theorem GetKeyCodeFromEvent_null_witness:
  "fst (GetKeyCodeFromEvent sim_framework NULL (sim_state 0)) = 0 \<and>
   fst (GetKeyCodeFromEvent sim_framework 0x7000 (sim_state 0)) = 0"
  using GetKeyCodeFromEvent_null [of sim_framework "sim_state 0" "0x7000"]
  by (simp add: sim_framework_def sim_state_def NULL_def)

subsection \<open>The mouse position\<close>

text \<open>
  C4. Let \<open>event\<close> be what the framework's \<open>CGEventCreate\<close> answers for a \<^verbatim>\<open>NULL\<close>
  source, and \<open>location\<close> the location the framework reports for that event. If
  \<open>point\<close> is not \<^verbatim>\<open>NULL\<close> and \<open>event\<close> is not \<^verbatim>\<open>NULL\<close>, \<open>GetCurrentMousePos\<close> returns 0 and
  the memory at \<open>point\<close> holds \<open>location\<close> afterwards. If \<open>point\<close> is \<^verbatim>\<open>NULL\<close> or \<open>event\<close> is
  \<^verbatim>\<open>NULL\<close>, it returns \<open>-1\<close>.
\<close>

theorem GetCurrentMousePos_result:
  assumes "os_CGEventCreate fw NULL (world s) = (event, w1)"
    and "os_CGEventGetLocation fw event w1 = (location, w2)"
  shows "(point \<noteq> NULL \<and> event \<noteq> NULL \<longrightarrow>
            fst (GetCurrentMousePos fw point s) = 0 \<and>
            mem (snd (GetCurrentMousePos fw point s)) point = location) \<and>
         (point = NULL \<or> event = NULL \<longrightarrow>
            sint (fst (GetCurrentMousePos fw point s)) = - 1)"
  using assms
  by (simp add: GetCurrentMousePos_def CGEventCreate_def CGEventGetLocation_def
      CFRelease_def)

theorem GetCurrentMousePos_result_witness:
  "fst (GetCurrentMousePos sim_framework 0x900 (sim_state 1)) = 0 \<and>
   mem (snd (GetCurrentMousePos sim_framework 0x900 (sim_state 1))) 0x900 =
     CGPoint (Double 0x4059000000000000) (Double 0x4049000000000000) \<and>
   sint (fst (GetCurrentMousePos sim_framework 0x900 (sim_state 0))) = - 1 \<and>
   sint (fst (GetCurrentMousePos sim_framework NULL (sim_state 1))) = - 1"
  using GetCurrentMousePos_result [of sim_framework "sim_state 1" "0x7000" "(0, [])"
      "CGPoint (Double 0x4059000000000000) (Double 0x4049000000000000)" "(0, [])" "0x900"]
    GetCurrentMousePos_result [of sim_framework "sim_state 0" 0 "(0, [])"
      "CGPoint (Double 0x4059000000000000) (Double 0x4049000000000000)" "(0, [])" "0x900"]
    GetCurrentMousePos_result [of sim_framework "sim_state 1" "0x7000" "(0, [])"
      "CGPoint (Double 0x4059000000000000) (Double 0x4049000000000000)" "(0, [])" NULL]
  by (simp add: sim_framework_def sim_state_def NULL_def)

text \<open>
  C9. On both failure paths (\<open>point\<close> is \<^verbatim>\<open>NULL\<close>, or the framework creates no event)
  \<open>GetCurrentMousePos\<close> returns \<open>-1\<close> and the caller's memory is as before. Whenever
  some address holds another point after the call than before, the call returned 0
  and the address is \<open>point\<close>.
\<close>

theorem GetCurrentMousePos_frame:
  assumes "os_CGEventCreate fw NULL (world s) = (event, w1)"
  shows "(point = NULL \<or> event = NULL \<longrightarrow>
            sint (fst (GetCurrentMousePos fw point s)) = - 1 \<and>
            mem (snd (GetCurrentMousePos fw point s)) = mem s) \<and>
         (\<forall>p. mem (snd (GetCurrentMousePos fw point s)) p \<noteq> mem s p \<longrightarrow>
            fst (GetCurrentMousePos fw point s) = 0 \<and> p = point)"
  using assms
  by (simp add: GetCurrentMousePos_def CGEventCreate_def CGEventGetLocation_def
      CFRelease_def split_beta)

theorem GetCurrentMousePos_frame_witness:
  "sint (fst (GetCurrentMousePos sim_framework 0x900 (sim_state 0))) = - 1 \<and>
   mem (snd (GetCurrentMousePos sim_framework 0x900 (sim_state 0))) = mem (sim_state 0) \<and>
   sint (fst (GetCurrentMousePos sim_framework NULL (sim_state 1))) = - 1 \<and>
   mem (snd (GetCurrentMousePos sim_framework NULL (sim_state 1))) = mem (sim_state 1) \<and>
   mem (snd (GetCurrentMousePos sim_framework 0x900 (sim_state 1))) 0x900 \<noteq>
     mem (sim_state 1) 0x900 \<and>
   fst (GetCurrentMousePos sim_framework 0x900 (sim_state 1)) = 0"
proof -
  have none_left: "os_CGEventCreate sim_framework NULL (world (sim_state 0)) = (0, (0, []))"
    by (simp add: sim_framework_def sim_state_def)
  have one_left: "os_CGEventCreate sim_framework NULL (world (sim_state 1)) = (0x7000, (0, []))"
    by (simp add: sim_framework_def sim_state_def)
  have written: "mem (snd (GetCurrentMousePos sim_framework 0x900 (sim_state 1))) 0x900 \<noteq>
      mem (sim_state 1) 0x900"
    by (simp add: GetCurrentMousePos_def CGEventCreate_def CGEventGetLocation_def
        CFRelease_def sim_framework_def sim_state_def NULL_def)
  have failing: "sint (fst (GetCurrentMousePos sim_framework 0x900 (sim_state 0))) = - 1 \<and>
      mem (snd (GetCurrentMousePos sim_framework 0x900 (sim_state 0))) = mem (sim_state 0) \<and>
      sint (fst (GetCurrentMousePos sim_framework NULL (sim_state 1))) = - 1 \<and>
      mem (snd (GetCurrentMousePos sim_framework NULL (sim_state 1))) = mem (sim_state 1)"
    using GetCurrentMousePos_frame [OF none_left, of "0x900"]
      GetCurrentMousePos_frame [OF one_left, of NULL]
    by (simp add: NULL_def)
  have "fst (GetCurrentMousePos sim_framework 0x900 (sim_state 1)) = 0"
    using GetCurrentMousePos_frame [OF one_left, of "0x900"] written by blast
  with failing written show ?thesis by blast
qed

subsection \<open>Printing an event\<close>

text \<open>
  C10. Let the two key event types differ from the five mouse event types (moved,
  left and right button down and up), and the scroll-wheel type differ from all
  seven, as in the macOS headers. \<open>PrintEventInfo\<close> always prints the event type
  first. For a key-down or key-up event it then prints the key code (the low 16 bits
  of the field) and nothing else; for one of the five mouse event types it then
  prints the location and nothing else; for every other type it prints nothing more.
  A scroll-wheel event gets the type line only, although its bit is in the mask of
  the tap (for a scroll-wheel constant below 31).
\<close>

theorem PrintEventInfo_output:
  assumes "{kCGEventKeyDown fw, kCGEventKeyUp fw} \<inter>
           {kCGEventMouseMoved fw, kCGEventLeftMouseDown fw, kCGEventLeftMouseUp fw,
            kCGEventRightMouseDown fw, kCGEventRightMouseUp fw} = {}"
    and "kCGEventScrollWheel fw \<notin>
           {kCGEventKeyDown fw, kCGEventKeyUp fw,
            kCGEventMouseMoved fw, kCGEventLeftMouseDown fw, kCGEventLeftMouseUp fw,
            kCGEventRightMouseDown fw, kCGEventRightMouseUp fw}"
    and "kCGEventScrollWheel fw < 31"
    and "os_CGEventGetIntegerValueField fw event (kCGKeyboardEventKeycode fw) (world s) = (v, w1)"
    and "os_CGEventGetLocation fw event (world s) = (location, w2)"
  shows "(type \<in> {kCGEventKeyDown fw, kCGEventKeyUp fw} \<longrightarrow>
            out (PrintEventInfo fw type event s) =
              out s @ [Printf (''Event type: %d'' @ [CHR 0x0A]) [Int_arg type],
                       Printf (''Key code: %d'' @ [CHR 0x0A])
                         [Int_arg (ucast (ucast v :: 16 word))]]) \<and>
         (type \<in> {kCGEventMouseMoved fw, kCGEventLeftMouseDown fw, kCGEventLeftMouseUp fw,
                   kCGEventRightMouseDown fw, kCGEventRightMouseUp fw} \<longrightarrow>
            out (PrintEventInfo fw type event s) =
              out s @ [Printf (''Event type: %d'' @ [CHR 0x0A]) [Int_arg type],
                       Printf (''Mouse location: (%f, %f)'' @ [CHR 0x0A])
                         [Double_arg (pt_x location), Double_arg (pt_y location)]]) \<and>
         (type \<notin> {kCGEventKeyDown fw, kCGEventKeyUp fw,
                   kCGEventMouseMoved fw, kCGEventLeftMouseDown fw, kCGEventLeftMouseUp fw,
                   kCGEventRightMouseDown fw, kCGEventRightMouseUp fw} \<longrightarrow>
            out (PrintEventInfo fw type event s) =
              out s @ [Printf (''Event type: %d'' @ [CHR 0x0A]) [Int_arg type]]) \<and>
         out (PrintEventInfo fw (kCGEventScrollWheel fw) event s) =
           out s @ [Printf (''Event type: %d'' @ [CHR 0x0A]) [Int_arg (kCGEventScrollWheel fw)]] \<and>
         bit (eventMask fw) (unat (kCGEventScrollWheel fw))"
proof -
  have key: "out (PrintEventInfo fw t event s) =
      out s @ [Printf (''Event type: %d'' @ [CHR 0x0A]) [Int_arg t],
               Printf (''Key code: %d'' @ [CHR 0x0A]) [Int_arg (ucast (ucast v :: 16 word))]]"
    if "t = kCGEventKeyDown fw \<or> t = kCGEventKeyUp fw" for t
    using that assms(4)
    by (simp add: PrintEventInfo_def printf_def CGEventGetIntegerValueField_def)
  have mouse: "out (PrintEventInfo fw t event s) =
      out s @ [Printf (''Event type: %d'' @ [CHR 0x0A]) [Int_arg t],
               Printf (''Mouse location: (%f, %f)'' @ [CHR 0x0A])
                 [Double_arg (pt_x location), Double_arg (pt_y location)]]"
    if "t \<noteq> kCGEventKeyDown fw" "t \<noteq> kCGEventKeyUp fw"
      and "t = kCGEventMouseMoved fw \<or> t = kCGEventLeftMouseDown fw \<or>
           t = kCGEventLeftMouseUp fw \<or> t = kCGEventRightMouseDown fw \<or>
           t = kCGEventRightMouseUp fw" for t
    using that assms(5)
    by (simp add: PrintEventInfo_def printf_def CGEventGetLocation_def)
  have other: "out (PrintEventInfo fw t event s) =
      out s @ [Printf (''Event type: %d'' @ [CHR 0x0A]) [Int_arg t]]"
    if "t \<noteq> kCGEventKeyDown fw" "t \<noteq> kCGEventKeyUp fw"
      "t \<noteq> kCGEventMouseMoved fw" "t \<noteq> kCGEventLeftMouseDown fw"
      "t \<noteq> kCGEventLeftMouseUp fw" "t \<noteq> kCGEventRightMouseDown fw"
      "t \<noteq> kCGEventRightMouseUp fw" for t
    using that by (simp add: PrintEventInfo_def printf_def)
  have a: "type \<in> {kCGEventKeyDown fw, kCGEventKeyUp fw} \<longrightarrow>
            out (PrintEventInfo fw type event s) =
              out s @ [Printf (''Event type: %d'' @ [CHR 0x0A]) [Int_arg type],
                       Printf (''Key code: %d'' @ [CHR 0x0A])
                         [Int_arg (ucast (ucast v :: 16 word))]]"
    using key [of type] by blast
  have b: "type \<in> {kCGEventMouseMoved fw, kCGEventLeftMouseDown fw, kCGEventLeftMouseUp fw,
                   kCGEventRightMouseDown fw, kCGEventRightMouseUp fw} \<longrightarrow>
            out (PrintEventInfo fw type event s) =
              out s @ [Printf (''Event type: %d'' @ [CHR 0x0A]) [Int_arg type],
                       Printf (''Mouse location: (%f, %f)'' @ [CHR 0x0A])
                         [Double_arg (pt_x location), Double_arg (pt_y location)]]"
    using mouse [of type] assms(1) by blast
  have c: "type \<notin> {kCGEventKeyDown fw, kCGEventKeyUp fw,
                   kCGEventMouseMoved fw, kCGEventLeftMouseDown fw, kCGEventLeftMouseUp fw,
                   kCGEventRightMouseDown fw, kCGEventRightMouseUp fw} \<longrightarrow>
            out (PrintEventInfo fw type event s) =
              out s @ [Printf (''Event type: %d'' @ [CHR 0x0A]) [Int_arg type]]"
    using other [of type] by blast
  have d: "out (PrintEventInfo fw (kCGEventScrollWheel fw) event s) =
           out s @ [Printf (''Event type: %d'' @ [CHR 0x0A]) [Int_arg (kCGEventScrollWheel fw)]]"
    using other [of "kCGEventScrollWheel fw"] assms(2) by blast
  have e: "bit (eventMask fw) (unat (kCGEventScrollWheel fw))"
    using assms(3) unat_lt_31 [OF assms(3)]
    by (simp add: eventMask_def bit_signed_iff bit_or_iff bit_one_shifted)
  from a b c d e show ?thesis by blast
qed

theorem PrintEventInfo_output_witness:
  "out (PrintEventInfo sim_framework 10 0x57031 (sim_state 0)) =
     [Printf (''Event type: %d'' @ [CHR 0x0A]) [Int_arg 10],
      Printf (''Key code: %d'' @ [CHR 0x0A]) [Int_arg 0x31]] \<and>
   out (PrintEventInfo sim_framework 5 0x57031 (sim_state 0)) =
     [Printf (''Event type: %d'' @ [CHR 0x0A]) [Int_arg 5],
      Printf (''Mouse location: (%f, %f)'' @ [CHR 0x0A])
        [Double_arg (Double 0x4059000000000000), Double_arg (Double 0x4049000000000000)]] \<and>
   out (PrintEventInfo sim_framework 6 0x57031 (sim_state 0)) =
     [Printf (''Event type: %d'' @ [CHR 0x0A]) [Int_arg 6]] \<and>
   out (PrintEventInfo sim_framework 22 0x57031 (sim_state 0)) =
     [Printf (''Event type: %d'' @ [CHR 0x0A]) [Int_arg 22]] \<and>
   bit (eventMask sim_framework) 22"
proof -
  have apart: "{kCGEventKeyDown sim_framework, kCGEventKeyUp sim_framework} \<inter>
      {kCGEventMouseMoved sim_framework, kCGEventLeftMouseDown sim_framework,
       kCGEventLeftMouseUp sim_framework, kCGEventRightMouseDown sim_framework,
       kCGEventRightMouseUp sim_framework} = {}"
    by (simp add: sim_framework_def)
  have wheel: "kCGEventScrollWheel sim_framework \<notin>
      {kCGEventKeyDown sim_framework, kCGEventKeyUp sim_framework,
       kCGEventMouseMoved sim_framework, kCGEventLeftMouseDown sim_framework,
       kCGEventLeftMouseUp sim_framework, kCGEventRightMouseDown sim_framework,
       kCGEventRightMouseUp sim_framework}"
    by (simp add: sim_framework_def)
  have small: "kCGEventScrollWheel sim_framework < 31"
    by (simp add: sim_framework_def)
  have field: "os_CGEventGetIntegerValueField sim_framework 0x57031
      (kCGKeyboardEventKeycode sim_framework) (world (sim_state 0)) = (0x50031, (0, []))"
    by (simp add: sim_framework_def sim_state_def)
  have loc: "os_CGEventGetLocation sim_framework 0x57031 (world (sim_state 0)) =
      (CGPoint (Double 0x4059000000000000) (Double 0x4049000000000000), (0, []))"
    by (simp add: sim_framework_def sim_state_def)
  have types: "kCGEventKeyDown sim_framework = 10" "kCGEventKeyUp sim_framework = 11"
    "kCGEventMouseMoved sim_framework = 5" "kCGEventLeftMouseDown sim_framework = 1"
    "kCGEventLeftMouseUp sim_framework = 2" "kCGEventRightMouseDown sim_framework = 3"
    "kCGEventRightMouseUp sim_framework = 4" "kCGEventScrollWheel sim_framework = 22"
    "out (sim_state 0) = []"
    by (simp_all add: sim_framework_def sim_state_def)
  from PrintEventInfo_output [OF apart wheel small field loc, of 10]
    PrintEventInfo_output [OF apart wheel small field loc, of 5]
    PrintEventInfo_output [OF apart wheel small field loc, of 6]
  show ?thesis by (simp add: types)
qed

end
